theory Spec2Isabelle
  imports Complex_Main "HOL-Library.Multiset" "HOL-Library.Char_ord" "HOL-Library.List_Lexorder"
begin

section \<open>JavaScript strings and numbers\<close>

text \<open>
  A JavaScript string is a sequence of UTF-16 code units. It is modelled as a
  \<^typ>\<open>string\<close>, each character standing for one code unit below 256, so
  \<^const>\<open>length\<close> is the \<^verbatim>\<open>.length\<close> of the source. An optional
  property (\<^verbatim>\<open>temperature?: string\<close>) is a \<^typ>\<open>string option\<close>, with
  \<^const>\<open>None\<close> for \<^verbatim>\<open>undefined\<close>.

  A JavaScript number is an IEEE double: \<open>Fin x\<close> carries the rational value
  \<open>x\<close> of a finite double (the sign of zero is not kept: no comparison and no
  text of the program depends on it). A literal is rounded to the nearest
  double, ties to even, by \<open>to_double\<close>.
\<close>

datatype jsnum = NaN | MInf | Fin rat | PInf

text \<open>\<^verbatim>\<open>a < b\<close> on numbers: false as soon as one side is \<^verbatim>\<open>NaN\<close>.\<close>

fun js_lt :: "jsnum \<Rightarrow> jsnum \<Rightarrow> bool" where
  "js_lt (Fin x) (Fin y) = (x < y)"
| "js_lt (Fin x) PInf = True"
| "js_lt MInf (Fin y) = True"
| "js_lt MInf PInf = True"
| "js_lt _ _ = False"

definition js_gt :: "jsnum \<Rightarrow> jsnum \<Rightarrow> bool" where
  "js_gt a b = js_lt b a"

definition isNaN :: "jsnum \<Rightarrow> bool" where
  "isNaN x = (x = NaN)"

text \<open>The number of binary digits of a natural number.\<close>

fun bit_length :: "nat \<Rightarrow> nat" where
  "bit_length n = (if n = 0 then 0 else Suc (bit_length (n div 2)))"

declare bit_length.simps [simp del]

text \<open>The integer nearest to \<open>num / den\<close>, the even one of two that are equally near.\<close>

definition round_half_even :: "nat \<Rightarrow> nat \<Rightarrow> nat" where
  "round_half_even num den =
     (let f = num div den; r = num mod den
      in if 2 * r < den then f
         else if den < 2 * r then f + 1
         else if even f then f else f + 1)"

definition scale2 :: "rat \<Rightarrow> int \<Rightarrow> rat" where
  "scale2 m e = (if 0 \<le> e then m * 2 ^ nat e else m / 2 ^ nat (- e))"

text \<open>
  The double nearest to \<open>p / q\<close>, for \<open>q > 0\<close>. With \<open>2\<^sup>e \<le> p / q < 2\<^sup>e\<^sup>+\<^sup>1\<close>,
  a double has 53 binary digits, so its last digit is worth \<open>2\<^sup>e\<^sup>-\<^sup>5\<^sup>2\<close>, and
  \<open>2\<^sup>-\<^sup>1\<^sup>0\<^sup>7\<^sup>4\<close> below the normal range; a result of \<open>2\<^sup>1\<^sup>0\<^sup>2\<^sup>4\<close> or more is
  \<^verbatim>\<open>Infinity\<close>.
\<close>

definition to_double :: "nat \<Rightarrow> nat \<Rightarrow> jsnum" where
  "to_double p q =
     (if p = 0 then Fin 0
      else
        (let d = int (bit_length p) - int (bit_length q);
             e = (if (if 0 \<le> d then q * 2 ^ nat d \<le> p else q \<le> p * 2 ^ nat (- d))
                  then d else d - 1);
             g = max e (- 1022) - 52;
             n = (if 0 \<le> g then round_half_even p (q * 2 ^ nat g)
                  else round_half_even (p * 2 ^ nat (- g)) q)
         in if 0 \<le> g \<and> 2 ^ 1024 \<le> n * 2 ^ nat g then PInf
            else Fin (scale2 (of_nat n) g)))"

text \<open>\<^verbatim>\<open>-x\<close>\<close>

definition js_neg :: "jsnum \<Rightarrow> jsnum" where
  "js_neg x = (case x of NaN \<Rightarrow> NaN | MInf \<Rightarrow> PInf | Fin r \<Rightarrow> Fin (- r) | PInf \<Rightarrow> MInf)"

text \<open>The double nearest to \<open>m \<times> 10\<^sup>k\<close>.\<close>

definition decimal_to_double :: "nat \<Rightarrow> int \<Rightarrow> jsnum" where
  "decimal_to_double m k =
     (if 0 \<le> k then to_double (m * 10 ^ nat k) 1 else to_double m (10 ^ nat (- k)))"

text \<open>Truthiness of an optional string: \<^verbatim>\<open>undefined\<close> and \<^verbatim>\<open>""\<close> are falsy.\<close>

definition truthy_str :: "string option \<Rightarrow> bool" where
  "truthy_str s = (case s of None \<Rightarrow> False | Some t \<Rightarrow> t \<noteq> [])"

text \<open>\<^verbatim>\<open>s || ""\<close>\<close>

definition or_empty :: "string option \<Rightarrow> string" where
  "or_empty s = (case s of None \<Rightarrow> [] | Some t \<Rightarrow> t)"

text \<open>White space and line terminators that \<^verbatim>\<open>parseInt\<close> and
  \<^verbatim>\<open>parseFloat\<close> skip at the start (those below 256).\<close>

definition isWhiteSpace :: "char \<Rightarrow> bool" where
  "isWhiteSpace c = (of_char c \<in> {9, 10, 11, 12, 13, 32, 160 :: nat})"

definition isDigit :: "char \<Rightarrow> bool" where
  "isDigit c = (48 \<le> (of_char c :: nat) \<and> (of_char c :: nat) \<le> 57)"

definition isHexDigit :: "char \<Rightarrow> bool" where
  "isHexDigit c = (let n = (of_char c :: nat)
     in (48 \<le> n \<and> n \<le> 57) \<or> (65 \<le> n \<and> n \<le> 70) \<or> (97 \<le> n \<and> n \<le> 102))"

definition digit_value :: "char \<Rightarrow> nat" where
  "digit_value c = (let n = (of_char c :: nat)
     in if n \<le> 57 then n - 48 else if n \<le> 70 then n - 55 else n - 87)"

definition digits_value :: "nat \<Rightarrow> string \<Rightarrow> nat" where
  "digits_value radix ds = foldl (\<lambda>acc c. acc * radix + digit_value c) 0 ds"

text \<open>
  \<^verbatim>\<open>parseInt(str)\<close> with no radix: skip leading white space, read a sign, read
  a \<^verbatim>\<open>0x\<close> prefix (then the radix is 16), read the longest run of digits;
  \<^verbatim>\<open>NaN\<close> when that run is empty. What follows the digits is ignored.
\<close>

definition parseInt :: "string \<Rightarrow> jsnum" where
  "parseInt str =
    (let s = dropWhile isWhiteSpace str;
         neg = (take 1 s = ''-'');
         s1 = (if take 1 s = ''+'' \<or> take 1 s = ''-'' then drop 1 s else s);
         hex = (take 2 s1 = ''0x'' \<or> take 2 s1 = ''0X'');
         s2 = (if hex then drop 2 s1 else s1);
         z = takeWhile (if hex then isHexDigit else isDigit) s2
     in if z = [] then NaN
        else let n = to_double (digits_value (if hex then 16 else 10) z) 1
             in if neg then js_neg n else n)"

text \<open>The exponent part \<^verbatim>\<open>e[+-]digits\<close> of a decimal literal, 0 when there is none.\<close>

definition exponent_part :: "string \<Rightarrow> int" where
  "exponent_part r =
    (if take 1 r = ''e'' \<or> take 1 r = ''E'' then
       (let r1 = drop 1 r;
            eneg = (take 1 r1 = ''-'');
            r2 = (if take 1 r1 = ''+'' \<or> take 1 r1 = ''-'' then drop 1 r1 else r1);
            ds = takeWhile isDigit r2
        in if ds = [] then 0
           else if eneg then - int (digits_value 10 ds) else int (digits_value 10 ds))
     else 0)"

text \<open>
  \<^verbatim>\<open>parseFloat(str)\<close>: skip leading white space, then the longest prefix that
  is a decimal literal (sign, \<^verbatim>\<open>Infinity\<close> or digits with an optional
  fraction and exponent); \<^verbatim>\<open>NaN\<close> when there is none. The value of the
  literal is rounded to the nearest double.
\<close>

definition parseFloat :: "string \<Rightarrow> jsnum" where
  "parseFloat str =
    (let s = dropWhile isWhiteSpace str;
         neg = (take 1 s = ''-'');
         s1 = (if take 1 s = ''+'' \<or> take 1 s = ''-'' then drop 1 s else s)
     in if take 8 s1 = ''Infinity'' then (if neg then MInf else PInf)
        else
          (let ip = takeWhile isDigit s1;
               r1 = dropWhile isDigit s1;
               dot = (take 1 r1 = ''.'');
               fp = (if dot then takeWhile isDigit (drop 1 r1) else []);
               r2 = (if dot then dropWhile isDigit (drop 1 r1) else r1)
           in if ip = [] \<and> fp = [] then NaN
              else let v = decimal_to_double (digits_value 10 (ip @ fp))
                                 (exponent_part r2 - int (length fp))
                   in if neg then js_neg v else v))"

text \<open>\<^verbatim>\<open>str.split(sep)\<close> for a one-character separator: one more part than
  there are separators.\<close>

fun str_split :: "char \<Rightarrow> string \<Rightarrow> string list" where
  "str_split sep [] = [[]]"
| "str_split sep (c # cs) =
     (if c = sep then [] # str_split sep cs
      else (case str_split sep cs of
              [] \<Rightarrow> [[c]]
            | p # ps \<Rightarrow> (c # p) # ps))"

section \<open>src/lib/medicalLogic.ts\<close>

record vitals =
  temperature :: "string option"
  bloodPressure :: "string option"
  heartRate :: "string option"
  spO2 :: "string option"

record demographics =
  age :: "string option"
  gender :: "string option"
  preExistingConditions :: "string option"

text \<open>The result \<^verbatim>\<open>{ valid: boolean; error?: string; suggestion?: string }\<close>.\<close>

record validation =
  valid :: bool
  error :: "string option"
  suggestion :: "string option"

definition validation_ok :: validation where
  "validation_ok = \<lparr>valid = True, error = None, suggestion = None\<rparr>"

definition temperature_invalid :: validation where
  "temperature_invalid =
     \<lparr>valid = False,
      error = Some ''The temperature provided is outside of physiological limits.'',
      suggestion = Some ''Please double-check your thermometer reading and try again.''\<rparr>"

definition bloodPressure_invalid :: validation where
  "bloodPressure_invalid =
     \<lparr>valid = False,
      error = Some ''The blood pressure reading appears to be invalid.'',
      suggestion = Some ''Ensure systolic (top number) is higher than diastolic (bottom number) and re-enter.''\<rparr>"

definition validateVitals :: "vitals option \<Rightarrow> validation" where
  "validateVitals vit =
    (case vit of
       None \<Rightarrow> validation_ok
     | Some v \<Rightarrow>
        (let temp = parseFloat (or_empty (temperature v))
         in if truthy_str (temperature v) \<and> \<not> isNaN temp
               \<and> (js_lt temp (Fin 30) \<or> js_gt temp (Fin 45))
            then temperature_invalid
            else if truthy_str (bloodPressure v) then
              (let bpParts = str_split CHR ''/'' (or_empty (bloodPressure v))
               in if length bpParts = 2 then
                    (let systolic = parseInt (bpParts ! 0);
                         diastolic = parseInt (bpParts ! 1)
                     in if js_lt systolic diastolic \<or> js_gt systolic (Fin 300)
                           \<or> js_lt diastolic (Fin 20)
                        then bloodPressure_invalid
                        else validation_ok)
                  else validation_ok)
            else validation_ok))"

definition higher_tier :: string where
  "higher_tier = ''gemini-3.1-pro-preview''"

definition baseline_tier :: string where
  "baseline_tier = ''gemini-3-flash-preview''"

text \<open>\<^verbatim>\<open>demographics?.preExistingConditions\<close>\<close>

definition preExisting_of :: "demographics option \<Rightarrow> string option" where
  "preExisting_of d = (case d of None \<Rightarrow> None | Some r \<Rightarrow> preExistingConditions r)"

definition selectModel :: "string list \<Rightarrow> string option \<Rightarrow> demographics option \<Rightarrow> string" where
  "selectModel symptoms additionalInfo demogr =
    (let isComplex =
           (truthy_str additionalInfo \<and> length (or_empty additionalInfo) > 200)
         \<or> (truthy_str (preExisting_of demogr) \<and> length (or_empty (preExisting_of demogr)) > 50)
         \<or> length symptoms > 5
     in if isComplex then higher_tier else baseline_tier)"

section \<open>JSON values and serialisation\<close>

text \<open>
  The value that \<^verbatim>\<open>JSON.parse\<close> returns. An object is the list of its
  properties, each key once.
\<close>

datatype json =
    JNull
  | JBool bool
  | JNum rat
  | JStr string
  | JArr "json list"
  | JObj "(string \<times> json) list"

text \<open>Truthiness of a parsed value.\<close>

definition truthy :: "json \<Rightarrow> bool" where
  "truthy j = (case j of
      JNull \<Rightarrow> False
    | JBool b \<Rightarrow> b
    | JNum n \<Rightarrow> n \<noteq> 0
    | JStr s \<Rightarrow> s \<noteq> []
    | JArr _ \<Rightarrow> True
    | JObj _ \<Rightarrow> True)"

text \<open>Truthiness of a value that may be \<^verbatim>\<open>undefined\<close>.\<close>

definition truthy_opt :: "json option \<Rightarrow> bool" where
  "truthy_opt j = (case j of None \<Rightarrow> False | Some v \<Rightarrow> truthy v)"

text \<open>
  \<^verbatim>\<open>diagnosis.inconclusive\<close>: reading a property of \<^verbatim>\<open>null\<close> throws a
  TypeError; a value that is not an object has no such property.
\<close>

definition inconclusive_of :: "json \<Rightarrow> string + json option" where
  "inconclusive_of d = (case d of
      JNull \<Rightarrow> Inl ''TypeError''
    | JObj kvs \<Rightarrow> Inr (map_of kvs ''inconclusive'')
    | _ \<Rightarrow> Inr None)"

definition hex_char :: "nat \<Rightarrow> char" where
  "hex_char n = ''0123456789abcdef'' ! (n mod 16)"

text \<open>The escape of one code unit inside a JSON string (QuoteJSONString).\<close>

definition json_escape :: "char \<Rightarrow> string" where
  "json_escape c =
    (let n = (of_char c :: nat)
     in if n = 34 then [CHR 0x5C, CHR 0x22]
        else if n = 92 then [CHR 0x5C, CHR 0x5C]
        else if n = 8 then [CHR 0x5C, CHR ''b'']
        else if n = 9 then [CHR 0x5C, CHR ''t'']
        else if n = 10 then [CHR 0x5C, CHR ''n'']
        else if n = 12 then [CHR 0x5C, CHR ''f'']
        else if n = 13 then [CHR 0x5C, CHR ''r'']
        else if n < 32 then [CHR 0x5C, CHR ''u'', CHR ''0'', CHR ''0'', hex_char (n div 16), hex_char n]
        else [c])"

definition json_quote :: "string \<Rightarrow> string" where
  "json_quote s = CHR 0x22 # concat (map json_escape s) @ [CHR 0x22]"

text \<open>\<^verbatim>\<open>parts.join(sep)\<close>\<close>

fun join :: "string \<Rightarrow> string list \<Rightarrow> string" where
  "join sep [] = []"
| "join sep [x] = x"
| "join sep (x # y # ys) = x @ sep @ join sep (y # ys)"

text \<open>\<^verbatim>\<open>JSON.stringify\<close> of an array of strings.\<close>

definition stringify_strings :: "string list \<Rightarrow> string" where
  "stringify_strings xs = ''['' @ join '','' (map json_quote xs) @ '']''"

text \<open>
  \<^verbatim>\<open>JSON.stringify\<close> of an object whose property values are already
  serialised; a property whose value is \<^verbatim>\<open>undefined\<close> is left out.
\<close>

definition stringify_object :: "(string \<times> string option) list \<Rightarrow> string" where
  "stringify_object props =
     ''{'' @ join '','' (concat (map (\<lambda>(k, v). case v of None \<Rightarrow> [] | Some t \<Rightarrow> [json_quote k @ '':'' @ t]) props))
     @ ''}''"

text \<open>
  An object of the request body whose property values are strings or
  \<^verbatim>\<open>null\<close>: its properties in the order of the body, each name once, with
  \<^const>\<open>None\<close> for \<^verbatim>\<open>null\<close>. This is what \<^verbatim>\<open>vitals\<close> and
  \<^verbatim>\<open>demographics\<close> are when they reach the route.
\<close>

type_synonym props = "(string \<times> string option) list"

text \<open>\<^verbatim>\<open>obj.name\<close> read as an optional string: a missing property and
  \<^verbatim>\<open>null\<close> are both falsy and are not told apart by the readers.\<close>

definition get_prop :: "props \<Rightarrow> string \<Rightarrow> string option" where
  "get_prop ps name = (case map_of ps name of Some (Some s) \<Rightarrow> Some s | _ \<Rightarrow> None)"

text \<open>The object as \<^verbatim>\<open>validateVitals\<close>, \<^verbatim>\<open>selectModel\<close> and the prompt
  read it.\<close>

definition vitals_of :: "props \<Rightarrow> vitals" where
  "vitals_of ps =
     \<lparr>temperature = get_prop ps ''temperature'', bloodPressure = get_prop ps ''bloodPressure'',
      heartRate = get_prop ps ''heartRate'', spO2 = get_prop ps ''spO2''\<rparr>"

definition demographics_of :: "props \<Rightarrow> demographics" where
  "demographics_of ps =
     \<lparr>age = get_prop ps ''age'', gender = get_prop ps ''gender'',
      preExistingConditions = get_prop ps ''preExistingConditions''\<rparr>"

text \<open>\<^verbatim>\<open>JSON.stringify\<close> of such an object: every property, in its order.\<close>

definition stringify_props :: "props \<Rightarrow> string" where
  "stringify_props ps = stringify_object
     (map (\<lambda>(name, v). (name, Some (case v of None \<Rightarrow> ''null'' | Some t \<Rightarrow> json_quote t))) ps)"

section \<open>server.ts: cache key\<close>

text \<open>
  \<^verbatim>\<open>JSON.stringify({ symptoms: symptoms.sort(), vitals, demographics })\<close>.
  \<^verbatim>\<open>sort()\<close> with no comparator orders strings by their code units, which is
  the lexicographic order of \<^typ>\<open>string\<close>.
\<close>

definition cacheKeyData :: "string list \<Rightarrow> props option \<Rightarrow> props option \<Rightarrow> string" where
  "cacheKeyData symptoms vit demogr = stringify_object
     [(''symptoms'', Some (stringify_strings (sort symptoms))),
      (''vitals'', map_option stringify_props vit),
      (''demographics'', map_option stringify_props demogr)]"

text \<open>
  \<^verbatim>\<open>crypto.createHash("sha256").update(data).digest("hex")\<close> is the parameter
  \<open>sha256\<close> of every function that hashes.
\<close>

definition getCacheKey ::
  "(string \<Rightarrow> string) \<Rightarrow> string list \<Rightarrow> props option \<Rightarrow> props option \<Rightarrow> string" where
  "getCacheKey sha256 symptoms vit demogr = sha256 (cacheKeyData symptoms vit demogr)"

section \<open>The response cache\<close>

text \<open>
  Modelled from the spec: the response cache is the package node-cache, which is
  not under src/. \<^verbatim>\<open>set\<close> stores the value with a time-to-live of 6 hours
  from insertion, \<^verbatim>\<open>get\<close> returns the value of an entry that has not
  expired, and an entry past its time-to-live is unreadable (and dropped when
  it is looked up). Times are milliseconds.
\<close>

record cache_entry =
  entry_value :: json
  expires :: nat

type_synonym node_cache = "string \<Rightarrow> cache_entry option"

definition stdTTL :: nat where
  "stdTTL = 6 * 60 * 60"

definition cache_get :: "node_cache \<Rightarrow> nat \<Rightarrow> string \<Rightarrow> json option \<times> node_cache" where
  "cache_get c now k =
     (case c k of
        None \<Rightarrow> (None, c)
      | Some e \<Rightarrow> if expires e < now then (None, c(k := None)) else (Some (entry_value e), c))"

definition cache_set :: "node_cache \<Rightarrow> nat \<Rightarrow> string \<Rightarrow> json \<Rightarrow> node_cache" where
  "cache_set c now k v = c(k \<mapsto> \<lparr>entry_value = v, expires = now + stdTTL * 1000\<rparr>)"

section \<open>server.ts: the prompt\<close>

fun show_nat :: "nat \<Rightarrow> string" where
  "show_nat n = (if n < 10 then [hex_char n] else show_nat (n div 10) @ [hex_char (n mod 10)])"

definition show_int :: "int \<Rightarrow> string" where
  "show_int i = (if i < 0 then ''-'' @ show_nat (nat (- i)) else show_nat (nat i))"

text \<open>
  A number of the request body is given by the rational that its JSON text
  denotes; \<^verbatim>\<open>JSON.parse\<close> rounds it to a double.
\<close>

definition rat_to_double :: "rat \<Rightarrow> jsnum" where
  "rat_to_double r =
     (case quotient_of r of
        (p, q) \<Rightarrow> if p < 0 then js_neg (to_double (nat (- p)) (nat q))
                  else to_double (nat p) (nat q))"

text \<open>The wearable summary; \<^const>\<open>None\<close> is a \<^verbatim>\<open>null\<close> property, which
  counts as 0 where a number is wanted.\<close>

record wearable =
  avgSteps :: "rat option"
  avgHeartRate :: "rat option"
  sleepHours :: "rat option"

definition to_number :: "rat option \<Rightarrow> jsnum" where
  "to_number x = (case x of None \<Rightarrow> Fin 0 | Some r \<Rightarrow> rat_to_double r)"

text \<open>\<^verbatim>\<open>Math.round(x)\<close> rounds half up.\<close>

definition Math_round :: "jsnum \<Rightarrow> jsnum" where
  "Math_round x = (case x of Fin r \<Rightarrow> Fin (of_int \<lfloor>r + 1 / 2\<rfloor>) | _ \<Rightarrow> x)"

text \<open>The text of a whole number in a template literal, below \<open>10\<^sup>2\<^sup>1\<close> in
  magnitude.\<close>

definition number_text :: "jsnum \<Rightarrow> string" where
  "number_text x = (case x of
      NaN \<Rightarrow> ''NaN''
    | MInf \<Rightarrow> ''-Infinity''
    | PInf \<Rightarrow> ''Infinity''
    | Fin r \<Rightarrow> show_int \<lfloor>r\<rfloor>)"

text \<open>\<^verbatim>\<open>x.toFixed(1)\<close>, for a finite number below \<open>10\<^sup>2\<^sup>1\<close> in magnitude: the
  nearest multiple of one tenth of the double, the larger of two that are
  equally near.\<close>

definition toFixed1 :: "jsnum \<Rightarrow> string" where
  "toFixed1 x = (case x of
      NaN \<Rightarrow> ''NaN''
    | MInf \<Rightarrow> ''-Infinity''
    | PInf \<Rightarrow> ''Infinity''
    | Fin r \<Rightarrow>
        (let n = nat \<lfloor>\<bar>r\<bar> * 10 + 1 / 2\<rfloor>
         in (if r < 0 then ''-'' else []) @ show_nat (n div 10) @ ''.'' @ show_nat (n mod 10)))"

text \<open>\<^verbatim>\<open>s || d\<close>\<close>

definition or_default :: "string option \<Rightarrow> string \<Rightarrow> string" where
  "or_default s d = (if truthy_str s then or_empty s else d)"

definition vitalsString :: "vitals option \<Rightarrow> string" where
  "vitalsString vit = (case vit of
      None \<Rightarrow> []
    | Some v \<Rightarrow>
        ''\<newline>    Vitals:'' @
        ''\<newline>    - Temperature: '' @ or_default (temperature v) ''Not provided'' @
        ''\<newline>    - Blood Pressure: '' @ or_default (bloodPressure v) ''Not provided'' @
        ''\<newline>    - Heart Rate: '' @ or_default (heartRate v) ''Not provided'' @
        ''\<newline>    - SpO2: '' @ or_default (spO2 v) ''Not provided'' @
        ''\<newline>    '')"

definition demographicsString :: "demographics option \<Rightarrow> string" where
  "demographicsString demogr = (case demogr of
      None \<Rightarrow> []
    | Some d \<Rightarrow>
        ''\<newline>    Patient Demographics:'' @
        ''\<newline>    - Age: '' @ or_default (age d) ''Not provided'' @
        ''\<newline>    - Gender: '' @ or_default (gender d) ''Not provided'' @
        ''\<newline>    - Pre-existing Conditions: '' @ or_default (preExistingConditions d) ''None reported'' @
        ''\<newline>    '')"

text \<open>\<^verbatim>\<open>wearableData.sleepHours.toFixed(1)\<close> throws a TypeError when
  \<^verbatim>\<open>sleepHours\<close> is \<^verbatim>\<open>null\<close>.\<close>

definition wearableString :: "wearable option \<Rightarrow> string + string" where
  "wearableString wd = (case wd of
      None \<Rightarrow> Inr []
    | Some w \<Rightarrow>
       (case sleepHours w of
          None \<Rightarrow> Inl ''TypeError''
        | Some h \<Rightarrow> Inr (
            ''\<newline>    Wearable Data (Last 7 Days Avg):'' @
            ''\<newline>    - Steps: '' @ number_text (Math_round (to_number (avgSteps w))) @
            ''\<newline>    - Heart Rate: '' @ number_text (Math_round (to_number (avgHeartRate w))) @ '' bpm'' @
            ''\<newline>    - Sleep: '' @ toFixed1 (rat_to_double h) @ '' hours/night'' @
            ''\<newline>    '')))"

definition prompt_rules :: string where
  \<open>prompt_rules =
     ''\<newline>    '' @
     ''\<newline>    CRITICAL SAFETY RULES:'' @
     ''\<newline>    1. For 'Routine' urgency cases, you may suggest common Over-The-Counter (OTC) medications (e.g., Paracetamol, Ibuprofen, Antacids).'' @
     ''\<newline>    2. NEVER suggest prescription-only medications (e.g., Antibiotics, Steroids, Opioids).'' @
     ''\<newline>    3. NEVER provide dosage instructions (e.g., "take 500mg every 4 hours").'' @
     ''\<newline>    4. If symptoms are too vague or contradictory, set the "inconclusive" flag to true.'' @
     ''\<newline>    '' @
     ''\<newline>    Provide the response in a structured JSON format with the following keys:'' @
     ''\<newline>    - summary: A brief overview of the assessment.'' @
     ''\<newline>    - inconclusive: boolean (true if symptoms are too vague).'' @
     ''\<newline>    - possibleConditions: An array of objects, each with:'' @
     ''\<newline>      - condition: Name of the condition.'' @
     ''\<newline>      - probability: A percentage string.'' @
     ''\<newline>      - urgency: One of 'Routine', 'Urgent', 'Emergency'.'' @
     ''\<newline>      - probableSpecialty: The type of medical specialist the patient should see (e.g., 'Cardiologist', 'Dermatologist', 'General Practitioner').'' @
     ''\<newline>      - commonSymptoms: Array of strings.'' @
     ''\<newline>      - nextSteps: Array of strings.'' @
     ''\<newline>      - otcSuggestions: Array of strings (ONLY for 'Routine' cases).'' @
     ''\<newline>      - pharmacyLinks: Array of objects with { name, url } (provide links to major pharmacies like CVS, Walgreens, or Amazon Pharmacy for the suggested OTC meds).'' @
     ''\<newline>    - disclaimer: A medical disclaimer.''\<close>

definition buildPrompt ::
  "string list \<Rightarrow> string option \<Rightarrow> vitals option \<Rightarrow> demographics option \<Rightarrow> wearable option
    \<Rightarrow> string + string" where
  "buildPrompt symptoms additionalInfo vit demogr wd =
     (case wearableString wd of
        Inl e \<Rightarrow> Inl e
      | Inr ws \<Rightarrow> Inr (
          ''Analyze the following symptoms, vitals, patient demographics, and wearable data to provide a preliminary diagnostic assessment. '' @
          ''\<newline>    Symptoms: '' @ join '', '' symptoms @
          ''\<newline>    '' @ demographicsString demogr @
          ''\<newline>    '' @ vitalsString vit @
          ''\<newline>    '' @ ws @
          ''\<newline>    Additional Context: '' @ or_default additionalInfo ''None provided'' @
          prompt_rules))"

section \<open>server.ts: the diagnosis route\<close>

text \<open>
  The request body. \<^verbatim>\<open>symptoms\<close> is checked by the route itself, so the
  model keeps the cases the check tells apart: a missing or \<^verbatim>\<open>null\<close>
  property, a value that is not an array, and an array of strings. The other
  properties have the types of the interfaces. \<open>req_uid\<close> is
  \<^verbatim>\<open>req.user?.uid\<close>.
\<close>

datatype symptoms_input = Absent | NonArray | SymptomArray "string list"

record request =
  body_symptoms :: symptoms_input
  body_additionalInfo :: "string option"
  body_vitals :: "props option"
  body_demographics :: "props option"
  body_wearableData :: "wearable option"
  req_uid :: "string option"

text \<open>The vitals and the demographics of a request, as they are read.\<close>

definition req_vitals :: "request \<Rightarrow> vitals option" where
  "req_vitals req = map_option vitals_of (body_vitals req)"

definition req_demographics :: "request \<Rightarrow> demographics option" where
  "req_demographics req = map_option demographics_of (body_demographics req)"

text \<open>A row of the table \<^verbatim>\<open>audit_logs\<close>.\<close>

record audit_row =
  user_uid :: string
  model_used :: string
  input_hash :: string
  response_hash :: string

text \<open>The state that outlives a request: the cache, its two counters, the audit table.\<close>

record server_state =
  diagnosisCache :: node_cache
  cacheHits :: nat
  cacheMisses :: nat
  audit_logs :: "audit_row list"

text \<open>
  What \<^verbatim>\<open>await genAI.models.generateContent(...)\<close> does if the run gets
  to it, as the provider decides it: it resolves after some milliseconds with \<^verbatim>\<open>result.text\<close>,
  given together with what \<^verbatim>\<open>JSON.parse\<close> makes of that text (\<^const>\<open>None\<close>
  when it throws a SyntaxError); it rejects after some milliseconds with an
  error of some name; or it never settles.
\<close>

datatype provider_result =
    Resolved nat "string option" "json option"
  | Rejected nat string
  | Pending

text \<open>
  What a run of the route does, in order. \<open>AbortSignal\<close> is the timer
  callback \<^verbatim>\<open>controller.abort()\<close>.
\<close>

datatype effect =
    CacheGet string
  | GenerateContent string string
  | AbortSignal
  | AuditInsert audit_row
  | CacheSet string json
  | Respond nat json

definition error_json :: "string \<Rightarrow> string option \<Rightarrow> string option \<Rightarrow> json" where
  "error_json code err sugg = JObj
     ([(''code'', JStr code)]
      @ (case err of None \<Rightarrow> [] | Some e \<Rightarrow> [(''error'', JStr e)])
      @ (case sugg of None \<Rightarrow> [] | Some s \<Rightarrow> [(''suggestion'', JStr s)]))"

definition conflicting_vitals :: "validation \<Rightarrow> effect" where
  "conflicting_vitals vv = Respond 422 (error_json ''CONFLICTING_VITALS'' (error vv) (suggestion vv))"

definition no_symptoms :: effect where
  "no_symptoms = Respond 400 (error_json ''INCONCLUSIVE_SYMPTOMS''
     (Some ''No symptoms were selected.'')
     (Some ''Please select at least one symptom from the list or body map.''))"

definition inconclusive_symptoms :: effect where
  "inconclusive_symptoms = Respond 422 (error_json ''INCONCLUSIVE_SYMPTOMS''
     (Some ''The symptoms provided are too vague for a reliable assessment.'')
     (Some ''Try adding more specific symptoms or using the 'Additional Details' field to describe your condition in more detail.''))"

definition api_timeout :: effect where
  "api_timeout = Respond 504 (error_json ''API_TIMEOUT''
     (Some ''The analysis is taking longer than expected.'')
     (Some ''Our AI is currently busy. Please try again in a few moments.''))"

definition server_error :: effect where
  "server_error = Respond 500 (error_json ''SERVER_ERROR''
     (Some ''An unexpected error occurred during analysis.'')
     (Some ''Please try again. If the problem persists, check your internet connection.''))"

text \<open>The \<^verbatim>\<open>catch\<close> block, by \<^verbatim>\<open>error.name\<close>.\<close>

definition catch_block :: "string \<Rightarrow> effect" where
  "catch_block name = (if name = ''AbortError'' then api_timeout else server_error)"

text \<open>\<^verbatim>\<open>JSON.stringify({ symptoms, additionalInfo, vitals, demographics })\<close>\<close>

definition inputData ::
  "string list \<Rightarrow> string option \<Rightarrow> props option \<Rightarrow> props option \<Rightarrow> string" where
  "inputData symptoms additionalInfo vit demogr = stringify_object
     [(''symptoms'', Some (stringify_strings symptoms)),
      (''additionalInfo'', map_option json_quote additionalInfo),
      (''vitals'', map_option stringify_props vit),
      (''demographics'', map_option stringify_props demogr)]"

text \<open>
  \<^verbatim>\<open>JSON.parse(result.text || "{}")\<close>: \<open>parsed\<close> is the parse of
  \<^verbatim>\<open>result.text\<close>, and \<^verbatim>\<open>"{}"\<close> parses to the empty object.
\<close>

definition parse_diagnosis :: "string option \<Rightarrow> json option \<Rightarrow> json option" where
  "parse_diagnosis text parsed = (if truthy_str text then parsed else Some (JObj []))"

text \<open>
  The row that the route inserts: \<^verbatim>\<open>user_uid\<close> is
  \<^verbatim>\<open>req.user?.uid || "anonymous"\<close>, the hashes are those of the input data and
  of \<^verbatim>\<open>result.text || ""\<close>.
\<close>

definition audit_entry ::
  "(string \<Rightarrow> string) \<Rightarrow> request \<Rightarrow> string list \<Rightarrow> string \<Rightarrow> string option \<Rightarrow> audit_row" where
  "audit_entry sha256 req symptoms modelName text =
     \<lparr>user_uid = or_default (req_uid req) ''anonymous'',
      model_used = modelName,
      input_hash = sha256 (inputData symptoms (body_additionalInfo req)
                     (body_vitals req) (body_demographics req)),
      response_hash = sha256 (or_empty text)\<rparr>"

text \<open>The timer set before the call: \<^verbatim>\<open>setTimeout(() => controller.abort(), 25000)\<close>.\<close>

definition timeout_ms :: nat where
  "timeout_ms = 25000"

text \<open>
  From the resolved call to the response: \<^verbatim>\<open>clearTimeout\<close>,
  \<^verbatim>\<open>JSON.parse(result.text || "{}")\<close>, the audit row, the inconclusive check,
  the cache write. The call resolved \<open>latency\<close> milliseconds after \<open>now\<close>; the
  timer has fired before that when \<open>latency\<close> is beyond \<^const>\<open>timeout_ms\<close>.
  The insert into the audit table is taken to succeed.
\<close>

definition after_resolved ::
  "(string \<Rightarrow> string) \<Rightarrow> nat \<Rightarrow> request \<Rightarrow> string list \<Rightarrow> string \<Rightarrow> string
    \<Rightarrow> nat \<Rightarrow> string option \<Rightarrow> json option \<Rightarrow> server_state \<Rightarrow> server_state \<times> effect list" where
  "after_resolved sha256 now req symptoms cacheKey modelName latency text parsed st =
    (let fired = (if timeout_ms < latency then [AbortSignal] else [])
     in case parse_diagnosis text parsed of
          None \<Rightarrow> (st, fired @ [catch_block ''SyntaxError''])
        | Some d \<Rightarrow>
           (let row = audit_entry sha256 req symptoms modelName text;
                st1 = st\<lparr>audit_logs := audit_logs st @ [row]\<rparr>
            in case inconclusive_of d of
                 Inl name \<Rightarrow> (st1, fired @ [AuditInsert row, catch_block name])
               | Inr inc \<Rightarrow>
                  if truthy_opt inc then (st1, fired @ [AuditInsert row, inconclusive_symptoms])
                  else if \<not> truthy_str (body_additionalInfo req) then
                    (st1\<lparr>diagnosisCache := cache_set (diagnosisCache st1) (now + latency) cacheKey d\<rparr>,
                     fired @ [AuditInsert row, CacheSet cacheKey d, Respond 200 d])
                  else (st1, fired @ [AuditInsert row, Respond 200 d])))"

text \<open>
  The \<^verbatim>\<open>try\<close> block after a cache miss. The call to the provider is given the
  model name and the prompt; \<^verbatim>\<open>controller.signal\<close> is not passed to it. A
  rejected call skips \<^verbatim>\<open>clearTimeout\<close>, so the timer fires in any case.
\<close>

definition miss_path ::
  "(string \<Rightarrow> string) \<Rightarrow> provider_result \<Rightarrow> nat \<Rightarrow> request
    \<Rightarrow> string list \<Rightarrow> string \<Rightarrow> server_state \<Rightarrow> server_state \<times> effect list" where
  "miss_path sha256 answer now req symptoms cacheKey st =
    (let modelName = selectModel symptoms (body_additionalInfo req) (req_demographics req)
     in case buildPrompt symptoms (body_additionalInfo req) (req_vitals req)
               (req_demographics req) (body_wearableData req) of
          Inl name \<Rightarrow> (st, [catch_block name])
        | Inr prompt \<Rightarrow>
           (case answer of
              Pending \<Rightarrow> (st, [GenerateContent modelName prompt, AbortSignal])
            | Rejected latency name \<Rightarrow>
                (st, GenerateContent modelName prompt #
                     (if timeout_ms < latency then [AbortSignal, catch_block name]
                      else [catch_block name, AbortSignal]))
            | Resolved latency text parsed \<Rightarrow>
                (case after_resolved sha256 now req symptoms cacheKey modelName latency text parsed st of
                   (st', effs) \<Rightarrow> (st', GenerateContent modelName prompt # effs))))"

text \<open>\<^verbatim>\<open>cachedResult && !additionalInfo\<close>, with the cached value when it holds.\<close>

definition cache_hit :: "json option \<Rightarrow> string option \<Rightarrow> json option" where
  "cache_hit cachedResult additionalInfo =
     (case cachedResult of
        None \<Rightarrow> None
      | Some r \<Rightarrow> if truthy r \<and> \<not> truthy_str additionalInfo then Some r else None)"

text \<open>
  The route \<^verbatim>\<open>POST /api/diagnose\<close>, run at time \<open>now\<close>; \<open>answer\<close> is
  what the provider does if it is called. After
  \<^verbatim>\<open>getCacheKey\<close> the array \<^verbatim>\<open>symptoms\<close> is sorted, because
  \<^verbatim>\<open>symptoms.sort()\<close> sorts in place. Writes to the console are left out.
\<close>

definition diagnose ::
  "(string \<Rightarrow> string) \<Rightarrow> provider_result \<Rightarrow> nat \<Rightarrow> request
    \<Rightarrow> server_state \<Rightarrow> server_state \<times> effect list" where
  "diagnose sha256 answer now req st =
    (let vitalsValidation = validateVitals (req_vitals req)
     in if \<not> valid vitalsValidation then (st, [conflicting_vitals vitalsValidation])
        else
          (case body_symptoms req of
             Absent \<Rightarrow> (st, [no_symptoms])
           | NonArray \<Rightarrow> (st, [no_symptoms])
           | SymptomArray symptoms \<Rightarrow>
              if length symptoms = 0 then (st, [no_symptoms])
              else
                (let cacheKey = getCacheKey sha256 symptoms (body_vitals req) (body_demographics req);
                     sorted = sort symptoms
                 in case cache_get (diagnosisCache st) now cacheKey of
                      (cachedResult, cache1) \<Rightarrow>
                        (case cache_hit cachedResult (body_additionalInfo req) of
                           Some hit \<Rightarrow>
                             (st\<lparr>diagnosisCache := cache1, cacheHits := cacheHits st + 1\<rparr>,
                              [CacheGet cacheKey, Respond 200 hit])
                         | None \<Rightarrow>
                             (case miss_path sha256 answer now req sorted cacheKey
                                     (st\<lparr>diagnosisCache := cache1, cacheMisses := cacheMisses st + 1\<rparr>) of
                                (st', effs) \<Rightarrow> (st', CacheGet cacheKey # effs))))))"

text \<open>Reading a trace.\<close>

fun is_GenerateContent :: "effect \<Rightarrow> bool" where
  "is_GenerateContent (GenerateContent m p) = True"
| "is_GenerateContent _ = False"

fun is_CacheGet :: "effect \<Rightarrow> bool" where
  "is_CacheGet (CacheGet k) = True"
| "is_CacheGet _ = False"

fun is_CacheSet :: "effect \<Rightarrow> bool" where
  "is_CacheSet (CacheSet k v) = True"
| "is_CacheSet _ = False"

fun is_AuditInsert :: "effect \<Rightarrow> bool" where
  "is_AuditInsert (AuditInsert r) = True"
| "is_AuditInsert _ = False"

definition provider_calls :: "effect list \<Rightarrow> nat" where
  "provider_calls effs = length (filter is_GenerateContent effs)"

fun responses :: "effect list \<Rightarrow> (nat \<times> json) list" where
  "responses [] = []"
| "responses (Respond status body # effs) = (status, body) # responses effs"
| "responses (e # effs) = responses effs"

section \<open>Notions of the specification\<close>

text \<open>A parsed temperature lies within [30, 45].\<close>

definition in_physiological_range :: "jsnum \<Rightarrow> bool" where
  "in_physiological_range n = (case n of Fin x \<Rightarrow> 30 \<le> x \<and> x \<le> 45 | _ \<Rightarrow> False)"

text \<open>The parts of the blood-pressure string on \<^verbatim>\<open>/\<close>.\<close>

definition bp_parts :: "vitals \<Rightarrow> string list" where
  "bp_parts v = str_split CHR ''/'' (or_empty (bloodPressure v))"

text \<open>The temperature is absent or does not parse as a number.\<close>

definition temperature_not_provided :: "vitals \<Rightarrow> bool" where
  "temperature_not_provided v =
     (temperature v = None \<or> parseFloat (or_empty (temperature v)) = NaN)"

text \<open>The blood pressure is absent, does not split into exactly two parts, or
  splits into two parts of which neither parses as a number.\<close>

definition bloodPressure_not_provided :: "vitals \<Rightarrow> bool" where
  "bloodPressure_not_provided v =
     (bloodPressure v = None \<or> length (bp_parts v) \<noteq> 2
      \<or> list_all (\<lambda>p. parseInt p = NaN) (bp_parts v))"

text \<open>A request with nothing but symptoms, from an anonymous caller.\<close>

definition symptoms_only :: "symptoms_input \<Rightarrow> request" where
  "symptoms_only s =
     \<lparr>body_symptoms = s, body_additionalInfo = None, body_vitals = None,
      body_demographics = None, body_wearableData = None, req_uid = None\<rparr>"

text \<open>The server right after start: empty cache, counters at 0, no audit rows.\<close>

definition fresh_state :: server_state where
  "fresh_state = \<lparr>diagnosisCache = Map.empty, cacheHits = 0, cacheMisses = 0, audit_logs = []\<rparr>"

text \<open>The symptoms of a request that carries an array.\<close>

definition symptoms_list :: "request \<Rightarrow> string list" where
  "symptoms_list req = (case body_symptoms req of SymptomArray syms \<Rightarrow> syms | _ \<Rightarrow> [])"

text \<open>The cache key, the model tier and the prompt of a request.\<close>

definition request_key :: "(string \<Rightarrow> string) \<Rightarrow> request \<Rightarrow> string" where
  "request_key sha256 req =
     getCacheKey sha256 (symptoms_list req) (body_vitals req) (body_demographics req)"

definition request_model :: "request \<Rightarrow> string" where
  "request_model req =
     selectModel (sort (symptoms_list req)) (body_additionalInfo req) (req_demographics req)"

definition request_prompt :: "request \<Rightarrow> string" where
  "request_prompt req =
     (case buildPrompt (sort (symptoms_list req)) (body_additionalInfo req) (req_vitals req)
             (req_demographics req) (body_wearableData req) of
        Inl name \<Rightarrow> []
      | Inr prompt \<Rightarrow> prompt)"

text \<open>The timer has fired when the call settles.\<close>

definition timer_fired :: "nat \<Rightarrow> effect list" where
  "timer_fired latency = (if timeout_ms < latency then [AbortSignal] else [])"


text \<open>
  Reading back the first code unit of the body of a JSON string: the inverse of
  \<^const>\<open>json_escape\<close>, \<^const>\<open>None\<close> at the closing quote. It is used to show
  that the serialisation loses nothing.
\<close>

definition json_unescape :: "string \<Rightarrow> (char \<times> string) option" where
  "json_unescape s =
    (case s of
       [] \<Rightarrow> None
     | c # r \<Rightarrow>
        if c = CHR 0x22 then None
        else if c \<noteq> CHR 0x5C then Some (c, r)
        else
          (case r of
             [] \<Rightarrow> None
           | e # r1 \<Rightarrow>
              if e = CHR 0x22 then Some (CHR 0x22, r1)
              else if e = CHR 0x5C then Some (CHR 0x5C, r1)
              else if e = CHR ''b'' then Some (CHR 0x08, r1)
              else if e = CHR ''t'' then Some (CHR 0x09, r1)
              else if e = CHR ''n'' then Some (CHR 0x0A, r1)
              else if e = CHR ''f'' then Some (CHR 0x0C, r1)
              else if e = CHR ''r'' then Some (CHR 0x0D, r1)
              else if e = CHR ''u'' then
                (case r1 of
                   a # b # h1 # h2 # r2 \<Rightarrow>
                     Some (char_of (digit_value h1 * 16 + digit_value h2), r2)
                 | _ \<Rightarrow> None)
              else None))"



section \<open>Evaluation and helper lemmas\<close>

lemma bit_length_0: "bit_length 0 = 0"
  by (simp add: bit_length.simps)

lemma bit_length_1: "bit_length 1 = 1" "bit_length (Suc 0) = 1"
  by (simp_all add: bit_length.simps)

lemma bit_length_numeral: "bit_length (numeral k) = Suc (bit_length (numeral k div 2))"
  by (subst bit_length.simps) simp

lemmas js_eval = parseInt_def parseFloat_def isWhiteSpace_def isDigit_def isHexDigit_def
  digit_value_def digits_value_def exponent_part_def decimal_to_double_def to_double_def
  bit_length_0 bit_length_1 bit_length_numeral round_half_even_def scale2_def js_neg_def
  truthy_str_def or_empty_def js_gt_def isNaN_def Let_def

lemma parseFloat_Nil: "parseFloat [] = NaN"
  by (simp add: parseFloat_def)

lemma validateVitals_None: "validateVitals None = validation_ok"
  by (simp add: validateVitals_def)


lemma validateVitals_temperature_passes:
  assumes "\<not> (truthy_str (temperature v) \<and> \<not> isNaN (parseFloat (or_empty (temperature v)))
      \<and> (js_lt (parseFloat (or_empty (temperature v))) (Fin 30)
          \<or> js_gt (parseFloat (or_empty (temperature v))) (Fin 45)))"
  shows "validateVitals (Some v) = validateVitals (Some (v\<lparr>temperature := None\<rparr>))"
  using assms
  by (auto simp add: validateVitals_def Let_def truthy_str_def or_empty_def isNaN_def parseFloat_Nil)

lemma range_check: "n \<noteq> NaN \<Longrightarrow> in_physiological_range n = (\<not> (js_lt n (Fin 30) \<or> js_gt n (Fin 45)))"
  by (cases n) (auto simp: in_physiological_range_def js_gt_def)

lemma validateVitals_no_temperature:
  "temperature v = None \<Longrightarrow> validateVitals (Some v) =
    (if truthy_str (bloodPressure v) \<and> length (bp_parts v) = 2
        \<and> (js_lt (parseInt (bp_parts v ! 0)) (parseInt (bp_parts v ! 1))
            \<or> js_gt (parseInt (bp_parts v ! 0)) (Fin 300)
            \<or> js_lt (parseInt (bp_parts v ! 1)) (Fin 20))
     then bloodPressure_invalid else validation_ok)"
  by (simp add: validateVitals_def Let_def truthy_str_def or_empty_def isNaN_def parseFloat_Nil bp_parts_def)

lemma js_lt_NaN [simp]: "js_lt NaN x = False" "js_lt x NaN = False"
  by (cases x; simp)+

lemma validateVitals_bloodPressure_skipped:
  assumes "bloodPressure_not_provided v"
  shows "validateVitals (Some v) = validateVitals (Some (v\<lparr>bloodPressure := None\<rparr>))"
proof -
  have "list_all (\<lambda>p. parseInt p = NaN) ps \<Longrightarrow> length ps = 2 \<Longrightarrow>
      parseInt (ps ! 0) = NaN \<and> parseInt (ps ! 1) = NaN" for ps
    by (cases ps; simp; cases "tl ps"; auto)
  with assms show ?thesis
    by (auto simp add: validateVitals_def Let_def truthy_str_def or_empty_def isNaN_def
        bloodPressure_not_provided_def bp_parts_def js_gt_def)
qed

lemma validateVitals_bloodPressure_rule:
  assumes "temperature_not_provided v \<or> in_physiological_range (parseFloat (or_empty (temperature v)))"
    and "bloodPressure v = Some b" and "str_split CHR ''/'' b = [p, q]"
    and "parseInt p = Fin s" and "parseInt q = Fin d"
  shows "validateVitals (Some v) =
     (if s < d \<or> 300 < s \<or> d < 20 then bloodPressure_invalid else validation_ok)"
proof -
  have "b \<noteq> []" using assms(3) by auto
  have "\<not> (truthy_str (temperature v) \<and> \<not> isNaN (parseFloat (or_empty (temperature v)))
      \<and> (js_lt (parseFloat (or_empty (temperature v))) (Fin 30)
          \<or> js_gt (parseFloat (or_empty (temperature v))) (Fin 45)))"
    using assms(1) range_check[of "parseFloat (or_empty (temperature v))"]
    by (auto simp: temperature_not_provided_def isNaN_def truthy_str_def)
  then have "validateVitals (Some v) = validateVitals (Some (v\<lparr>temperature := None\<rparr>))"
    by (rule validateVitals_temperature_passes)
  then show ?thesis
    using validateVitals_no_temperature[of "v\<lparr>temperature := None\<rparr>"] assms(2-) \<open>b \<noteq> []\<close>
    by (simp add: bp_parts_def or_empty_def truthy_str_def js_gt_def)
qed


subsection \<open>The route, branch by branch\<close>

lemma diagnose_invalid_vitals:
  "\<not> valid (validateVitals (req_vitals req)) \<Longrightarrow>
   diagnose H a now req st = (st, [conflicting_vitals (validateVitals (req_vitals req))])"
  by (simp add: diagnose_def)

lemma diagnose_no_symptoms:
  "valid (validateVitals (req_vitals req)) \<Longrightarrow>
   body_symptoms req = Absent \<or> body_symptoms req = NonArray \<or> body_symptoms req = SymptomArray [] \<Longrightarrow>
   diagnose H a now req st = (st, [no_symptoms])"
  by (auto simp add: diagnose_def)

lemma catch_block_not_call [simp]:
  "catch_block n \<noteq> GenerateContent m p" "GenerateContent m p \<noteq> catch_block n"
  by (simp_all add: catch_block_def api_timeout_def server_error_def)

lemma after_resolved_no_call:
  "after_resolved H now req syms key m lat text parsed st = (s', t) \<Longrightarrow> GenerateContent m' p' \<notin> set t"
  by (auto simp add: after_resolved_def Let_def inconclusive_symptoms_def
      split: option.splits sum.splits if_splits)

lemma after_resolved_inconclusive:
  assumes "parse_diagnosis text parsed = Some d" and "inconclusive_of d = Inr inc" and "truthy_opt inc"
  shows "after_resolved H now req syms key m lat text parsed st =
     (st\<lparr>audit_logs := audit_logs st @ [audit_entry H req syms m text]\<rparr>,
      (if timeout_ms < lat then [AbortSignal] else [])
        @ [AuditInsert (audit_entry H req syms m text), inconclusive_symptoms])"
  using assms by (simp add: after_resolved_def Let_def)

lemma miss_path_Resolved:
  "miss_path H (Resolved lat text parsed) now req syms key st =
    (case buildPrompt syms (body_additionalInfo req) (req_vitals req)
               (req_demographics req) (body_wearableData req) of
       Inl name \<Rightarrow> (st, [catch_block name])
     | Inr prompt \<Rightarrow>
         (fst (after_resolved H now req syms key (selectModel syms (body_additionalInfo req) (req_demographics req)) lat text parsed st),
          GenerateContent (selectModel syms (body_additionalInfo req) (req_demographics req)) prompt #
          snd (after_resolved H now req syms key (selectModel syms (body_additionalInfo req) (req_demographics req)) lat text parsed st)))"
  by (simp add: miss_path_def Let_def split: sum.splits prod.splits)

lemma diagnose_reaches_provider:
  assumes "GenerateContent m p \<in> set (snd (diagnose H a now req st))"
  shows "\<exists>syms. body_symptoms req = SymptomArray syms \<and> syms \<noteq> []
     \<and> valid (validateVitals (req_vitals req))
     \<and> cache_hit (fst (cache_get (diagnosisCache st) now
            (getCacheKey H syms (body_vitals req) (body_demographics req))))
          (body_additionalInfo req) = None
     \<and> buildPrompt (sort syms) (body_additionalInfo req) (req_vitals req)
          (req_demographics req) (body_wearableData req) = Inr p
     \<and> m = selectModel (sort syms) (body_additionalInfo req) (req_demographics req)
     \<and> diagnose H a now req st =
         (fst (miss_path H a now req (sort syms)
              (getCacheKey H syms (body_vitals req) (body_demographics req))
              (st\<lparr>diagnosisCache := snd (cache_get (diagnosisCache st) now
                     (getCacheKey H syms (body_vitals req) (body_demographics req))),
                  cacheMisses := cacheMisses st + 1\<rparr>)),
          CacheGet (getCacheKey H syms (body_vitals req) (body_demographics req)) #
          snd (miss_path H a now req (sort syms)
              (getCacheKey H syms (body_vitals req) (body_demographics req))
              (st\<lparr>diagnosisCache := snd (cache_get (diagnosisCache st) now
                     (getCacheKey H syms (body_vitals req) (body_demographics req))),
                  cacheMisses := cacheMisses st + 1\<rparr>)))"
  using assms
  apply (simp add: diagnose_def Let_def conflicting_vitals_def no_symptoms_def
      split: if_splits symptoms_input.splits prod.splits option.splits)
  apply (auto simp add: miss_path_def Let_def dest: after_resolved_no_call
      split: sum.splits provider_result.splits prod.splits if_splits)
  done


lemmas route_eval = diagnose_def miss_path_def after_resolved_def parse_diagnosis_def
  audit_entry_def cache_hit_def cache_get_def cache_set_def getCacheKey_def
  buildPrompt_def wearableString_def inconclusive_of_def truthy_def truthy_opt_def
  truthy_str_def or_empty_def or_default_def validateVitals_def validation_ok_def
  provider_calls_def symptoms_only_def fresh_state_def timeout_ms_def catch_block_def
  conflicting_vitals_def no_symptoms_def inconclusive_symptoms_def api_timeout_def
  server_error_def req_vitals_def req_demographics_def Let_def

lemma provider_calls_pos:
  "0 < provider_calls effs \<Longrightarrow> \<exists>m p. GenerateContent m p \<in> set effs"
proof -
  assume "0 < provider_calls effs"
  then have "filter is_GenerateContent effs \<noteq> []"
    by (simp add: provider_calls_def)
  then obtain e where e: "e \<in> set effs" "is_GenerateContent e"
    by (metis filter_False)
  from e(2) obtain m p where "e = GenerateContent m p"
    by (cases e) auto
  with e(1) show ?thesis by blast
qed

lemma diagnose_provider_called:
  assumes "0 < provider_calls (snd (diagnose H a now req st))"
  shows "valid (validateVitals (req_vitals req))"
    and "body_symptoms req = SymptomArray (symptoms_list req)"
    and "symptoms_list req \<noteq> []"
    and "cache_hit (fst (cache_get (diagnosisCache st) now (request_key H req)))
           (body_additionalInfo req) = None"
    and "buildPrompt (sort (symptoms_list req)) (body_additionalInfo req) (req_vitals req)
           (req_demographics req) (body_wearableData req) = Inr (request_prompt req)"
    and "diagnose H a now req st =
         (fst (miss_path H a now req (sort (symptoms_list req)) (request_key H req)
              (st\<lparr>diagnosisCache := snd (cache_get (diagnosisCache st) now (request_key H req)),
                  cacheMisses := cacheMisses st + 1\<rparr>)),
          CacheGet (request_key H req) #
          snd (miss_path H a now req (sort (symptoms_list req)) (request_key H req)
              (st\<lparr>diagnosisCache := snd (cache_get (diagnosisCache st) now (request_key H req)),
                  cacheMisses := cacheMisses st + 1\<rparr>)))"
proof -
  from assms obtain m p where "GenerateContent m p \<in> set (snd (diagnose H a now req st))"
    using provider_calls_pos by blast
  from diagnose_reaches_provider [OF this] obtain syms where
    s: "body_symptoms req = SymptomArray syms" "syms \<noteq> []"
      "valid (validateVitals (req_vitals req))"
      "cache_hit (fst (cache_get (diagnosisCache st) now
            (getCacheKey H syms (body_vitals req) (body_demographics req))))
          (body_additionalInfo req) = None"
      "buildPrompt (sort syms) (body_additionalInfo req) (req_vitals req)
          (req_demographics req) (body_wearableData req) = Inr p"
      "diagnose H a now req st =
         (fst (miss_path H a now req (sort syms)
              (getCacheKey H syms (body_vitals req) (body_demographics req))
              (st\<lparr>diagnosisCache := snd (cache_get (diagnosisCache st) now
                     (getCacheKey H syms (body_vitals req) (body_demographics req))),
                  cacheMisses := cacheMisses st + 1\<rparr>)),
          CacheGet (getCacheKey H syms (body_vitals req) (body_demographics req)) #
          snd (miss_path H a now req (sort syms)
              (getCacheKey H syms (body_vitals req) (body_demographics req))
              (st\<lparr>diagnosisCache := snd (cache_get (diagnosisCache st) now
                     (getCacheKey H syms (body_vitals req) (body_demographics req))),
                  cacheMisses := cacheMisses st + 1\<rparr>)))"
    by blast
  have l: "symptoms_list req = syms" using s(1) by (simp add: symptoms_list_def)
  show "valid (validateVitals (req_vitals req))" by fact
  show "body_symptoms req = SymptomArray (symptoms_list req)" using s(1) l by simp
  show "symptoms_list req \<noteq> []" using s(2) l by simp
  show "cache_hit (fst (cache_get (diagnosisCache st) now (request_key H req)))
           (body_additionalInfo req) = None"
    using s(4) l by (simp add: request_key_def)
  show "buildPrompt (sort (symptoms_list req)) (body_additionalInfo req) (req_vitals req)
           (req_demographics req) (body_wearableData req) = Inr (request_prompt req)"
    using s(5) l by (simp add: request_prompt_def)
  show "diagnose H a now req st =
         (fst (miss_path H a now req (sort (symptoms_list req)) (request_key H req)
              (st\<lparr>diagnosisCache := snd (cache_get (diagnosisCache st) now (request_key H req)),
                  cacheMisses := cacheMisses st + 1\<rparr>)),
          CacheGet (request_key H req) #
          snd (miss_path H a now req (sort (symptoms_list req)) (request_key H req)
              (st\<lparr>diagnosisCache := snd (cache_get (diagnosisCache st) now (request_key H req)),
                  cacheMisses := cacheMisses st + 1\<rparr>)))"
    using s(6) l by (simp add: request_key_def)
qed

lemma miss_path_Resolved_prompt:
  assumes "buildPrompt syms (body_additionalInfo req) (req_vitals req)
               (req_demographics req) (body_wearableData req) = Inr prompt"
  shows "miss_path H (Resolved lat text parsed) now req syms key st =
         (fst (after_resolved H now req syms key
                 (selectModel syms (body_additionalInfo req) (req_demographics req)) lat text parsed st),
          GenerateContent (selectModel syms (body_additionalInfo req) (req_demographics req)) prompt #
          snd (after_resolved H now req syms key
                 (selectModel syms (body_additionalInfo req) (req_demographics req)) lat text parsed st))"
  using assms by (simp add: miss_path_Resolved)

lemma latency_has_no_effect_on_response:
  "responses (snd (diagnose H (Resolved lat text parsed) now req st))
     = responses (snd (diagnose H (Resolved 0 text parsed) now req st))"
  by (simp add: diagnose_def miss_path_def after_resolved_def Let_def conflicting_vitals_def
      no_symptoms_def catch_block_def api_timeout_def server_error_def inconclusive_symptoms_def
      split: symptoms_input.splits prod.splits option.splits sum.splits)

lemma pending_call_never_answered:
  "0 < provider_calls (snd (diagnose H Pending now req st)) \<Longrightarrow>
   responses (snd (diagnose H Pending now req st)) = []"
proof -
  assume c: "0 < provider_calls (snd (diagnose H Pending now req st))"
  note r = diagnose_provider_called [OF c]
  show ?thesis
    unfolding r(6) by (simp add: miss_path_def r(5) Let_def)
qed

subsection \<open>What the cache keeps\<close>

lemma is_CacheSet_catch_block [simp]: "\<not> is_CacheSet (catch_block n)"
  by (simp add: catch_block_def api_timeout_def server_error_def)








subsection \<open>The serialisation of the symptoms loses nothing\<close>

lemma digit_value_hex_char_upto: "\<forall>k \<in> set [0..<16]. digit_value (hex_char k) = k"
  by (simp add: upt_rec hex_char_def digit_value_def)

lemma digit_value_hex_char: "k < 16 \<Longrightarrow> digit_value (hex_char k) = k"
  using digit_value_hex_char_upto by simp

lemma char_eqI: "(of_char c :: nat) = of_char d \<Longrightarrow> c = d"
  by simp

lemma json_unescape_escape: "json_unescape (json_escape c @ r) = Some (c, r)"
proof -
  let ?n = "of_char c :: nat"
  consider "?n = 34" | "?n = 92" | "?n = 8" | "?n = 9" | "?n = 10" | "?n = 12" | "?n = 13"
    | "?n < 32" "?n \<noteq> 8" "?n \<noteq> 9" "?n \<noteq> 10" "?n \<noteq> 12" "?n \<noteq> 13"
    | "32 \<le> ?n" "?n \<noteq> 34" "?n \<noteq> 92"
    by linarith
  then show ?thesis
  proof cases
    case 1
    then have "c = CHR 0x22" by (intro char_eqI) simp
    then show ?thesis by (simp add: json_escape_def json_unescape_def)
  next
    case 2
    then have "c = CHR 0x5C" by (intro char_eqI) simp
    then show ?thesis by (simp add: json_escape_def json_unescape_def)
  next
    case 3
    then have "c = CHR 0x08" by (intro char_eqI) simp
    then show ?thesis by (simp add: json_escape_def json_unescape_def)
  next
    case 4
    then have "c = CHR 0x09" by (intro char_eqI) simp
    then show ?thesis by (simp add: json_escape_def json_unescape_def)
  next
    case 5
    then have "c = CHR 0x0A" by (intro char_eqI) simp
    then show ?thesis by (simp add: json_escape_def json_unescape_def)
  next
    case 6
    then have "c = CHR 0x0C" by (intro char_eqI) simp
    then show ?thesis by (simp add: json_escape_def json_unescape_def)
  next
    case 7
    then have "c = CHR 0x0D" by (intro char_eqI) simp
    then show ?thesis by (simp add: json_escape_def json_unescape_def)
  next
    case 8
    have "?n div 16 < 16" "?n mod 16 < 16" using 8(1) by simp_all
    then have "digit_value (hex_char (?n div 16)) * 16 + digit_value (hex_char ?n) = ?n"
      using digit_value_hex_char [of "?n div 16"] digit_value_hex_char [of "?n mod 16"]
      by (simp add: hex_char_def)
    then show ?thesis using 8
      by (simp add: json_escape_def json_unescape_def Let_def)
  next
    case 9
    then have "c \<noteq> CHR 0x22" "c \<noteq> CHR 0x5C" by auto
    with 9 show ?thesis
      by (simp add: json_escape_def json_unescape_def Let_def)
  qed
qed

lemma json_unescape_quote: "json_unescape (CHR 0x22 # r) = None"
  by (simp add: json_unescape_def)

lemma escaped_body_inj:
  "concat (map json_escape x) @ CHR 0x22 # r = concat (map json_escape y) @ CHR 0x22 # r'
   \<Longrightarrow> x = y \<and> r = r'"
proof (induction x arbitrary: y)
  case Nil
  show ?case
  proof (cases y)
    case Nil
    with Nil.prems show ?thesis by simp
  next
    case (Cons c cs)
    with Nil.prems have "json_unescape (CHR 0x22 # r)
        = json_unescape (json_escape c @ (concat (map json_escape cs) @ CHR 0x22 # r'))"
      by simp
    then show ?thesis
      by (simp only: json_unescape_escape json_unescape_quote) simp
  qed
next
  case (Cons b bs)
  show ?case
  proof (cases y)
    case Nil
    with Cons.prems have "json_unescape (json_escape b @ (concat (map json_escape bs) @ CHR 0x22 # r))
        = json_unescape (CHR 0x22 # r')"
      by simp
    then show ?thesis
      by (simp only: json_unescape_escape json_unescape_quote) simp
  next
    case (Cons c cs)
    with Cons.prems have "json_unescape (json_escape b @ (concat (map json_escape bs) @ CHR 0x22 # r))
        = json_unescape (json_escape c @ (concat (map json_escape cs) @ CHR 0x22 # r'))"
      by simp
    then have "b = c"
      and "concat (map json_escape bs) @ CHR 0x22 # r = concat (map json_escape cs) @ CHR 0x22 # r'"
      by (simp_all only: json_unescape_escape option.inject prod.inject)
    with Cons.IH [of cs] Cons show ?thesis by simp
  qed
qed

lemma json_quote_inj:
  "json_quote x @ r = json_quote y @ r' \<Longrightarrow> x = y \<and> r = r'"
  using escaped_body_inj [of x r y r'] by (simp add: json_quote_def)

lemma join_Cons: "join sep (x # xs) = x @ (if xs = [] then [] else sep @ join sep xs)"
  by (cases xs) simp_all

lemma joined_quotes_inj:
  "join '','' (map json_quote xs) @ CHR '']'' # r = join '','' (map json_quote ys) @ CHR '']'' # r'
   \<Longrightarrow> xs = ys"
proof (induction xs arbitrary: ys)
  case Nil
  then show ?case
    by (cases ys) (simp_all add: join_Cons json_quote_def)
next
  case (Cons a as)
  show ?case
  proof (cases ys)
    case Nil
    with Cons.prems show ?thesis
      by (simp add: join_Cons json_quote_def)
  next
    case (Cons b bs)
    let ?ra = "(if as = [] then [] else '','' @ join '','' (map json_quote as)) @ CHR '']'' # r"
    let ?rb = "(if bs = [] then [] else '','' @ join '','' (map json_quote bs)) @ CHR '']'' # r'"
    from Cons.prems Cons have "json_quote a @ ?ra = json_quote b @ ?rb"
      by (simp add: join_Cons)
    from json_quote_inj [OF this] have ab: "a = b" and rest: "?ra = ?rb" by simp_all
    have "as = bs"
    proof (cases "as = []")
      case True
      with rest show ?thesis by (cases "bs = []") simp_all
    next
      case False
      with rest have "bs \<noteq> []" by (cases "bs = []") simp_all
      with rest False have "join '','' (map json_quote as) @ CHR '']'' # r
          = join '','' (map json_quote bs) @ CHR '']'' # r'"
        by simp
      then show ?thesis by (rule Cons.IH)
    qed
    with ab Cons show ?thesis by simp
  qed
qed

lemma cacheKeyData_shape:
  "\<exists>suffix. \<forall>symptoms. cacheKeyData symptoms vit demogr =
     (''{'' @ json_quote ''symptoms'' @ '':['') @ join '','' (map json_quote (sort symptoms))
       @ CHR '']'' # suffix"
  by (rule exI [of _ "(if concat (map (\<lambda>(k, v). case v of None \<Rightarrow> [] | Some t \<Rightarrow> [json_quote k @ '':'' @ t])
            [(''vitals'', map_option stringify_props vit),
             (''demographics'', map_option stringify_props demogr)]) = [] then []
        else '','' @ join '','' (concat (map (\<lambda>(k, v). case v of None \<Rightarrow> [] | Some t \<Rightarrow> [json_quote k @ '':'' @ t])
            [(''vitals'', map_option stringify_props vit),
             (''demographics'', map_option stringify_props demogr)]))) @ ''}''"])
     (simp add: cacheKeyData_def stringify_object_def stringify_strings_def join_Cons)

lemma cacheKeyData_inj:
  assumes "cacheKeyData xs vit demogr = cacheKeyData ys vit demogr"
  shows "sort xs = sort ys"
proof -
  from cacheKeyData_shape [of vit demogr] obtain suffix where
    s: "\<And>symptoms. cacheKeyData symptoms vit demogr =
     (''{'' @ json_quote ''symptoms'' @ '':['') @ join '','' (map json_quote (sort symptoms))
       @ CHR '']'' # suffix"
    by blast
  from assms have "join '','' (map json_quote (sort xs)) @ CHR '']'' # suffix
      = join '','' (map json_quote (sort ys)) @ CHR '']'' # suffix"
    unfolding s [of xs] s [of ys] by (simp only: same_append_eq)
  then show ?thesis by (rule joined_quotes_inj)
qed

lemma sort_eq_iff_mset: "(sort xs = sort ys) = (mset xs = mset ys)"
proof
  assume "sort xs = sort ys"
  then have "mset (sort xs) = mset (sort ys)" by simp
  then show "mset xs = mset ys" by simp
next
  assume "mset xs = mset ys"
  then show "sort xs = sort ys"
    by (metis mset_sort properties_for_sort sorted_sort)
qed

text \<open>Fields that are absent or do not parse at all are skipped: absent
  vitals are valid, a temperature that is absent or does not parse leaves the
  result of the vitals without it, and so does a blood pressure that is absent,
  does not split into exactly two parts, or splits into two parts of which
  neither parses.\<close>

lemma validateVitals_fields_not_provided:
  "validateVitals None = validation_ok
   \<and> (temperature_not_provided v
        \<longrightarrow> validateVitals (Some v) = validateVitals (Some (v\<lparr>temperature := None\<rparr>)))
   \<and> (bloodPressure_not_provided v
        \<longrightarrow> validateVitals (Some v) = validateVitals (Some (v\<lparr>bloodPressure := None\<rparr>)))
   \<and> (temperature_not_provided v \<and> bloodPressure_not_provided v
        \<longrightarrow> validateVitals (Some v) = validation_ok)"
proof -
  have t: "validateVitals (Some v) = validateVitals (Some (v\<lparr>temperature := None\<rparr>))"
    if "temperature_not_provided v"
    using that
    by (intro validateVitals_temperature_passes) (auto simp: temperature_not_provided_def isNaN_def truthy_str_def)
  have b: "validateVitals (Some u) = validateVitals (Some (u\<lparr>bloodPressure := None\<rparr>))"
    if "bloodPressure_not_provided u" for u
    using that by (rule validateVitals_bloodPressure_skipped)
  have "validateVitals (Some v) = validation_ok"
    if "temperature_not_provided v" and "bloodPressure_not_provided v"
  proof -
    have "bloodPressure_not_provided (v\<lparr>temperature := None\<rparr>)"
      using that(2) by (simp add: bloodPressure_not_provided_def bp_parts_def)
    then have "validateVitals (Some (v\<lparr>temperature := None\<rparr>))
        = validateVitals (Some (v\<lparr>temperature := None, bloodPressure := None\<rparr>))"
      using b by fastforce
    also have "\<dots> = validation_ok"
      by (simp add: validateVitals_def truthy_str_def or_empty_def parseFloat_Nil isNaN_def)
    finally show ?thesis using t that(1) by simp
  qed
  with t b validateVitals_None show ?thesis by blast
qed

section \<open>Properties of the vitals validator and the model selector\<close>

text \<open>
  Claim C3. The claim: for a blood-pressure string that splits into two numeric
  parts \<open>(s, d)\<close>, validation fails when \<open>s \<le> d\<close>, \<open>s > 300\<close> or \<open>d < 20\<close>.
  The code tests \<^verbatim>\<open>systolic < diastolic\<close>, so a reading with equal parts
  passes, although the suggestion of the same branch asks for a systolic that is
  higher than the diastolic. The theorem runs the code on \<^verbatim>\<open>"100/100"\<close>: the
  string splits into two parts, both parse to 100, and the result is valid.
  For \<open>s < d\<close>, \<open>s > 300\<close>, \<open>d < 20\<close> and for (120, 80) the code does what
  the claim says (lemma \<open>validateVitals_bloodPressure_rule\<close>).
\<close>

theorem validateVitals_equal_pressures_accepted:
  "str_split CHR ''/'' ''100/100'' = [''100'', ''100''] \<and> parseInt ''100'' = Fin 100
   \<and> validateVitals (Some \<lparr>temperature = None, bloodPressure = Some ''100/100'',
         heartRate = None, spO2 = None\<rparr>) = validation_ok"
  by (simp add: validateVitals_def js_eval)


text \<open>
  Claim C6, as stated, fails: the symptoms are an array, and the code tests the
  length of the array, not the number of its distinct members. Six entries
  \<^verbatim>\<open>"Fever"\<close> are a set of one member; no addendum and no demographics come
  with them, and \<open>selectModel\<close> returns the higher tier.
\<close>

theorem selectModel_counts_repeated_symptoms:
  "selectModel [''Fever'', ''Fever'', ''Fever'', ''Fever'', ''Fever'', ''Fever''] None None
     = higher_tier
   \<and> set [''Fever'', ''Fever'', ''Fever'', ''Fever'', ''Fever'', ''Fever''] = {''Fever''}
   \<and> card (set [''Fever'', ''Fever'', ''Fever'', ''Fever'', ''Fever'', ''Fever'']) = 1
   \<and> higher_tier \<noteq> baseline_tier"
  by (simp add: selectModel_def Let_def truthy_str_def or_empty_def preExisting_of_def
      higher_tier_def baseline_tier_def)


text \<open>
  Claim C6, amended. \<open>selectModel\<close> returns the higher tier exactly when the
  addendum is longer than 200 characters, or the pre-existing-conditions text is
  longer than 50 characters, or the symptom list has more than 5 entries,
  repeated entries counted as often as they occur; otherwise it returns the
  baseline tier. An absent text has length 0. The function is a function of its
  three arguments alone.
\<close>

theorem selectModel_tiers:
  "(selectModel symptoms additionalInfo demogr = higher_tier)
     = (200 < length (or_empty additionalInfo)
        \<or> 50 < length (or_empty (preExisting_of demogr))
        \<or> 5 < length symptoms)
   \<and> (selectModel symptoms additionalInfo demogr = baseline_tier)
     = (\<not> (200 < length (or_empty additionalInfo)
           \<or> 50 < length (or_empty (preExisting_of demogr))
           \<or> 5 < length symptoms))"
  by (auto simp add: selectModel_def Let_def truthy_str_def or_empty_def higher_tier_def
      baseline_tier_def split: option.splits)


text \<open>
  Claim C8. The claim: an absent or unparseable field is treated as not provided
  and can never make validation fail; a blood pressure whose split parts do not
  parse as numbers is among the unparseable ones. The code: the temperature
  branch guards its comparison with \<^verbatim>\<open>!isNaN(temp)\<close>, and the blood-pressure
  branch compares the two results of \<^verbatim>\<open>parseInt\<close> with no such guard. The
  theorem runs the code on the blood pressure \<^verbatim>\<open>"400/abc"\<close>: the string
  splits into two parts, the second parses to \<^verbatim>\<open>NaN\<close>, the first to 400, above
  300, and validation fails with the blood-pressure error; on the temperature
  \<^verbatim>\<open>"abc"\<close>, which parses to \<^verbatim>\<open>NaN\<close> as well, validation passes. For absent
  vitals, for a temperature that is absent or does not parse, and for a blood
  pressure that is absent, does not split into exactly two parts or has no part
  that parses, the code does what the claim says (lemma
  \<open>validateVitals_fields_not_provided\<close>).
\<close>

theorem validateVitals_half_parsed_pressure_rejected:
  "str_split CHR ''/'' ''400/abc'' = [''400'', ''abc'']
   \<and> parseInt ''400'' = Fin 400 \<and> parseInt ''abc'' = NaN
   \<and> validateVitals (Some \<lparr>temperature = None, bloodPressure = Some ''400/abc'',
         heartRate = None, spO2 = None\<rparr>) = bloodPressure_invalid
   \<and> \<not> valid bloodPressure_invalid
   \<and> parseFloat ''abc'' = NaN
   \<and> validateVitals (Some \<lparr>temperature = Some ''abc'', bloodPressure = None,
         heartRate = None, spO2 = None\<rparr>) = validation_ok"
  by (simp add: validateVitals_def js_eval bloodPressure_invalid_def)


text \<open>
  Claim C10. Two vitals values with the same temperature and the same blood
  pressure get the same result, whatever their heart rate and SpO2; changing
  the heart rate and the SpO2 of a vitals value never changes its result.
\<close>

theorem validateVitals_ignores_heartRate_spO2:
  "(temperature v = temperature w \<and> bloodPressure v = bloodPressure w
      \<longrightarrow> validateVitals (Some v) = validateVitals (Some w))
   \<and> validateVitals (Some (v\<lparr>heartRate := h, spO2 := s\<rparr>)) = validateVitals (Some v)"
proof -
  have eq: "validateVitals (Some a) = validateVitals (Some b)"
    if "temperature a = temperature b" and "bloodPressure a = bloodPressure b" for a b
    by (simp only: validateVitals_def option.case that)
  show ?thesis
    using eq [of v w] eq [of "v\<lparr>heartRate := h, spO2 := s\<rparr>" v] by simp
qed


theorem validateVitals_ignores_heartRate_spO2_witness:
  "validateVitals (Some \<lparr>temperature = Some ''37.2'', bloodPressure = Some ''80/120'',
       heartRate = Some ''72'', spO2 = Some ''98''\<rparr>)
   = validateVitals (Some \<lparr>temperature = Some ''37.2'', bloodPressure = Some ''80/120'',
       heartRate = Some ''-5'', spO2 = Some ''abc''\<rparr>)"
  using validateVitals_ignores_heartRate_spO2
    [of "\<lparr>temperature = Some ''37.2'', bloodPressure = Some ''80/120'',
          heartRate = Some ''72'', spO2 = Some ''98''\<rparr>"
        "\<lparr>temperature = Some ''37.2'', bloodPressure = Some ''80/120'',
          heartRate = Some ''-5'', spO2 = Some ''abc''\<rparr>"]
  by simp




section \<open>Properties of the diagnosis route\<close>

text \<open>
  Claim C9, as stated, fails: a request without symptoms does not always get the
  400 response. The vitals are validated first, so an empty symptom list sent
  with a temperature of 50 gets 422 CONFLICTING_VITALS.
\<close>

theorem empty_symptoms_with_bad_vitals_get_422:
  "diagnose id Pending 0
     \<lparr>body_symptoms = SymptomArray [], body_additionalInfo = None,
      body_vitals = Some [(''temperature'', Some ''50'')],
      body_demographics = None, body_wearableData = None, req_uid = None\<rparr> fresh_state
   = (fresh_state, [Respond 422 (error_json ''CONFLICTING_VITALS''
                  (Some ''The temperature provided is outside of physiological limits.'')
                  (Some ''Please double-check your thermometer reading and try again.''))])"
  by (simp add: diagnose_def req_vitals_def vitals_of_def get_prop_def validateVitals_def js_eval
      temperature_invalid_def conflicting_vitals_def)


text \<open>
  Claim C9, amended. A request whose symptom list is missing, not an array or
  empty gets 400 INCONCLUSIVE_SYMPTOMS when its vitals pass validation, and 422
  CONFLICTING_VITALS when they do not. In both cases the response is the only
  effect: no cache lookup, no call to the provider, no audit row, no cache
  entry, and the state is unchanged. The result does not depend on the time,
  the provider or the hash.
\<close>

theorem no_symptoms_rejected_first:
  "body_symptoms req = Absent \<or> body_symptoms req = NonArray \<or> body_symptoms req = SymptomArray []
   \<longrightarrow>
     (valid (validateVitals (req_vitals req)) \<longrightarrow>
        diagnose H a now req st =
          (st, [Respond 400 (error_json ''INCONCLUSIVE_SYMPTOMS''
             (Some ''No symptoms were selected.'')
             (Some ''Please select at least one symptom from the list or body map.''))]))
     \<and> (\<not> valid (validateVitals (req_vitals req)) \<longrightarrow>
        diagnose H a now req st =
          (st, [Respond 422 (error_json ''CONFLICTING_VITALS''
             (error (validateVitals (req_vitals req)))
             (suggestion (validateVitals (req_vitals req))))]))"
  using diagnose_no_symptoms [of req H a now st] diagnose_invalid_vitals [of req H a now st]
  by (auto simp add: no_symptoms_def conflicting_vitals_def)

theorem no_symptoms_rejected_first_witness:
  "diagnose id (Resolved 10 None None) 0 (symptoms_only (SymptomArray [])) fresh_state
     = (fresh_state, [Respond 400 (error_json ''INCONCLUSIVE_SYMPTOMS''
             (Some ''No symptoms were selected.'')
             (Some ''Please select at least one symptom from the list or body map.''))])
   \<and> diagnose id Pending 5 (symptoms_only NonArray) fresh_state
     = (fresh_state, [Respond 400 (error_json ''INCONCLUSIVE_SYMPTOMS''
             (Some ''No symptoms were selected.'')
             (Some ''Please select at least one symptom from the list or body map.''))])"
proof -
  have v: "valid (validateVitals (req_vitals (symptoms_only s)))" for s
    by (simp add: symptoms_only_def req_vitals_def validateVitals_def validation_ok_def)
  have s1: "body_symptoms (symptoms_only (SymptomArray [])) = SymptomArray []"
    and s2: "body_symptoms (symptoms_only NonArray) = NonArray"
    by (simp_all add: symptoms_only_def)
  from no_symptoms_rejected_first [of "symptoms_only (SymptomArray [])" id "Resolved 10 None None" 0 fresh_state]
    no_symptoms_rejected_first [of "symptoms_only NonArray" id Pending 5 fresh_state]
    v s1 s2
  show ?thesis by simp
qed


text \<open>
  Claim C5. When the provider was called and its response parses to an object
  whose \<^verbatim>\<open>inconclusive\<close> property is truthy, the route inserts the audit row
  (caller, model tier, hash of the input, hash of the raw output) and then
  answers 422 INCONCLUSIVE_SYMPTOMS with the suggestion to add detail. The
  audit row comes before the response in the trace, and it is the row added to
  the audit table.
\<close>

theorem inconclusive_response_audited:
  assumes "0 < provider_calls (snd (diagnose H (Resolved lat text (Some (JObj kvs))) now req st))"
    and "truthy_str text"
    and "map_of kvs ''inconclusive'' = Some flag" and "truthy flag"
  shows "snd (diagnose H (Resolved lat text (Some (JObj kvs))) now req st) =
           [CacheGet (request_key H req), GenerateContent (request_model req) (request_prompt req)]
           @ timer_fired lat
           @ [AuditInsert (audit_entry H req (sort (symptoms_list req)) (request_model req) text),
              Respond 422 (error_json ''INCONCLUSIVE_SYMPTOMS''
                (Some ''The symptoms provided are too vague for a reliable assessment.'')
                (Some ''Try adding more specific symptoms or using the 'Additional Details' field to describe your condition in more detail.''))]
         \<and> audit_logs (fst (diagnose H (Resolved lat text (Some (JObj kvs))) now req st)) =
           audit_logs st @ [\<lparr>user_uid = or_default (req_uid req) ''anonymous'',
                             model_used = request_model req,
                             input_hash = H (inputData (sort (symptoms_list req)) (body_additionalInfo req)
                                            (body_vitals req) (body_demographics req)),
                             response_hash = H (or_empty text)\<rparr>]"
proof -
  note r = diagnose_provider_called [OF assms(1)]
  have p: "parse_diagnosis text (Some (JObj kvs)) = Some (JObj kvs)"
    using assms(2) by (simp add: parse_diagnosis_def)
  have i: "inconclusive_of (JObj kvs) = Inr (Some flag)"
    using assms(3) by (simp add: inconclusive_of_def)
  have t: "truthy_opt (Some flag)"
    using assms(4) by (simp add: truthy_opt_def)
  show ?thesis
    unfolding r(6) miss_path_Resolved_prompt [OF r(5)] after_resolved_inconclusive [OF p i t]
    by (simp add: request_model_def timer_fired_def inconclusive_symptoms_def audit_entry_def)
qed

theorem inconclusive_response_audited_witness:
  \<open>0 < provider_calls (snd (diagnose id
        (Resolved 1200 (Some ''{"inconclusive":true}'') (Some (JObj [(''inconclusive'', JBool True)])))
        0 (symptoms_only (SymptomArray [''Fever'', ''Cough''])) fresh_state))
   \<and> responses (snd (diagnose id
        (Resolved 1200 (Some ''{"inconclusive":true}'') (Some (JObj [(''inconclusive'', JBool True)])))
        0 (symptoms_only (SymptomArray [''Fever'', ''Cough''])) fresh_state))
       = [(422, error_json ''INCONCLUSIVE_SYMPTOMS''
                (Some ''The symptoms provided are too vague for a reliable assessment.'')
                (Some ''Try adding more specific symptoms or using the 'Additional Details' field to describe your condition in more detail.''))]
   \<and> map user_uid (audit_logs (fst (diagnose id
        (Resolved 1200 (Some ''{"inconclusive":true}'') (Some (JObj [(''inconclusive'', JBool True)])))
        0 (symptoms_only (SymptomArray [''Fever'', ''Cough''])) fresh_state))) = [''anonymous'']\<close>
proof -
  let ?a = \<open>Resolved 1200 (Some ''{"inconclusive":true}'') (Some (JObj [(''inconclusive'', JBool True)]))\<close>
  let ?r = "symptoms_only (SymptomArray [''Fever'', ''Cough''])"
  have h: "0 < provider_calls (snd (diagnose id ?a 0 ?r fresh_state))"
    by (simp add: route_eval)
  have t: \<open>truthy_str (Some ''{"inconclusive":true}'')\<close>
    by (simp add: truthy_str_def)
  have m: "map_of [(''inconclusive'', JBool True)] ''inconclusive'' = Some (JBool True)"
    by simp
  have f: "truthy (JBool True)"
    by (simp add: truthy_def)
  from inconclusive_response_audited [OF h t m f] h show ?thesis
    by (simp add: timer_fired_def timeout_ms_def symptoms_only_def fresh_state_def or_default_def truthy_str_def)
qed


text \<open>
  Claim C1. The claim: a provider call that does not return within 25 seconds
  yields 504 API_TIMEOUT and writes no audit row. The route sets the timer and
  has the 504 branch, but \<^verbatim>\<open>controller.signal\<close> is not passed to the call, so
  the timer callback changes nothing. The theorem runs the route with a
  provider that answers after 30 seconds: the timer fires, and the route still
  writes the audit row, fills the cache and answers 200. The response never
  depends on the latency (lemma \<open>latency_has_no_effect_on_response\<close>), and a
  call that never settles is never answered (lemma
  \<open>pending_call_never_answered\<close>).
\<close>

theorem late_provider_answer_is_served:
  \<open>timeout_ms < 30000
   \<and> snd (diagnose id (Resolved 30000 (Some ''{"summary":"ok"}'') (Some (JObj [(''summary'', JStr ''ok'')])))
        0 (symptoms_only (SymptomArray [''Fever''])) fresh_state)
     = [CacheGet (request_key id (symptoms_only (SymptomArray [''Fever'']))),
        GenerateContent baseline_tier (request_prompt (symptoms_only (SymptomArray [''Fever'']))),
        AbortSignal,
        AuditInsert \<lparr>user_uid = ''anonymous'', model_used = baseline_tier,
                     input_hash = ''{"symptoms":["Fever"]}'',
                     response_hash = ''{"summary":"ok"}''\<rparr>,
        CacheSet (request_key id (symptoms_only (SymptomArray [''Fever'']))) (JObj [(''summary'', JStr ''ok'')]),
        Respond 200 (JObj [(''summary'', JStr ''ok'')])]
   \<and> length (audit_logs (fst (diagnose id (Resolved 30000 (Some ''{"summary":"ok"}'') (Some (JObj [(''summary'', JStr ''ok'')])))
        0 (symptoms_only (SymptomArray [''Fever''])) fresh_state))) = 1\<close>
  by (simp add: route_eval request_key_def request_prompt_def symptoms_list_def selectModel_def
      preExisting_of_def inputData_def stringify_object_def stringify_strings_def json_quote_def
      json_escape_def)




section \<open>Properties of the cache key\<close>

text \<open>
  Claim C2, as stated, fails: duplicates do not collapse. \<open>getCacheKey\<close> sorts
  the array and removes nothing, so the data that is hashed for
  \<^verbatim>\<open>["Fever", "Fever"]\<close> differs from the data for \<^verbatim>\<open>["Fever"]\<close>, and
  the two keys are equal only if SHA-256 collides on these two strings. The
  hash is a parameter of the model; the theorem shows the two hashed strings
  and takes the identity for the hash.
\<close>

theorem duplicate_symptom_changes_key:
  \<open>remdups [''Fever'', ''Fever''] = [''Fever'']
   \<and> cacheKeyData [''Fever'', ''Fever''] None None = ''{"symptoms":["Fever","Fever"]}''
   \<and> cacheKeyData [''Fever''] None None = ''{"symptoms":["Fever"]}''
   \<and> getCacheKey id [''Fever'', ''Fever''] None None \<noteq> getCacheKey id [''Fever''] None None\<close>
  by (simp add: getCacheKey_def cacheKeyData_def stringify_object_def stringify_strings_def
      json_quote_def json_escape_def)

text \<open>
  Claim C2, amended. With the same vitals and demographics, a symptom list and
  any permutation of it get the same key. The key is a function of the multiset
  of symptoms: the hashed data of two lists are equal exactly when the lists
  are permutations of each other, and so, for a hash without collisions, two
  lists get the same key exactly when they are permutations of each other; a
  list with a duplicate and its deduplicated list get different keys.
\<close>

theorem cache_key_of_symptom_multiset:
  "(mset xs = mset ys \<longrightarrow> getCacheKey H xs vit demogr = getCacheKey H ys vit demogr)
   \<and> (cacheKeyData xs vit demogr = cacheKeyData ys vit demogr) = (mset xs = mset ys)
   \<and> (inj H \<longrightarrow>
        (getCacheKey H xs vit demogr = getCacheKey H ys vit demogr) = (mset xs = mset ys))"
proof -
  have d: "(cacheKeyData xs vit demogr = cacheKeyData ys vit demogr) = (mset xs = mset ys)"
  proof
    assume "cacheKeyData xs vit demogr = cacheKeyData ys vit demogr"
    then have "sort xs = sort ys" by (rule cacheKeyData_inj)
    then show "mset xs = mset ys" by (simp only: sort_eq_iff_mset)
  next
    assume "mset xs = mset ys"
    then have "sort xs = sort ys" by (simp only: sort_eq_iff_mset)
    then show "cacheKeyData xs vit demogr = cacheKeyData ys vit demogr"
      by (simp only: cacheKeyData_def)
  qed
  have k1: "getCacheKey H xs vit demogr = getCacheKey H ys vit demogr" if "mset xs = mset ys"
  proof -
    from that d have "cacheKeyData xs vit demogr = cacheKeyData ys vit demogr" by blast
    then show ?thesis by (simp only: getCacheKey_def)
  qed
  have k2: "(getCacheKey H xs vit demogr = getCacheKey H ys vit demogr) = (mset xs = mset ys)"
    if "inj H"
    using d by (simp only: getCacheKey_def inj_eq [OF that])
  from k1 d k2 show ?thesis by (intro conjI impI)
qed

theorem cache_key_of_symptom_multiset_witness:
  "mset [''Fever'', ''Cough'', ''Nausea''] = mset [''Nausea'', ''Fever'', ''Cough'']
   \<and> getCacheKey id [''Fever'', ''Cough'', ''Nausea''] None None
       = getCacheKey id [''Nausea'', ''Fever'', ''Cough''] None None
   \<and> inj (id :: string \<Rightarrow> string)
   \<and> getCacheKey id [''Fever'', ''Cough''] None None \<noteq> getCacheKey id [''Fever''] None None"
proof -
  have m: "mset [''Fever'', ''Cough'', ''Nausea''] = mset [''Nausea'', ''Fever'', ''Cough'']"
    by simp
  have n: "mset [''Fever'', ''Cough''] \<noteq> mset [''Fever'']"
    by simp
  have i: "inj (id :: string \<Rightarrow> string)"
    by simp
  have a: "getCacheKey id [''Fever'', ''Cough'', ''Nausea''] None None
       = getCacheKey id [''Nausea'', ''Fever'', ''Cough''] None None"
    by (rule cache_key_of_symptom_multiset [THEN conjunct1, THEN mp, OF m])
  have b: "getCacheKey id [''Fever'', ''Cough''] None None \<noteq> getCacheKey id [''Fever''] None None"
    using n
    by (simp only: cache_key_of_symptom_multiset [THEN conjunct2, THEN conjunct2, THEN mp, OF i])
      simp
  from m a i b show ?thesis by (intro conjI)
qed

end
